theory Spec2Isabelle
  imports Main "HOL-Library.Numeral_Type" "HOL-Library.Sublist"
begin

section \<open>The scalar field\<close>

text \<open>
  \<^verbatim>\<open>fr::field_t\<close> is an element of the scalar field of BN254: the integers modulo the prime
  below, with exact modular arithmetic (the Montgomery limbs and the coarse reductions of
  the source are representation only). The widget code and the public-input code use the
  operations \<open>+\<close>, \<open>-\<close>, \<open>*\<close> and squaring, so their embedding is written over any commutative
  ring \<open>'a\<close> and run at the type \<open>fr\<close>.
\<close>

type_synonym fr = "21888242871839275222246405745257275088548364400416034343698204186575808495617"

text \<open>
  The ways a call can fail to return: \<^verbatim>\<open>std::map::at\<close> throws \<^verbatim>\<open>std::out_of_range\<close> when
  the key is not in the map, and the inversion of a zero denominator aborts the proving
  run (the degenerate challenge of the specification).
\<close>

datatype error = out_of_range string | degenerate_challenge

text \<open>
  Modelled from the spec: the field library (\<^verbatim>\<open>fr::field_t::invert\<close>) is not among the
  sources. Field inversion is the modular inverse, here computed by the extended Euclidean
  algorithm on the representatives. On \<open>0\<close> it does not return a value: the specification
  has a zero denominator abort the proof, and the lines of \<^verbatim>\<open>compute_public_input_delta\<close>
  have no test of their own, so the abort is the inversion's.
\<close>

function inverse_loop :: "int \<Rightarrow> int \<Rightarrow> int \<Rightarrow> int \<Rightarrow> int" where
  "inverse_loop r0 r1 t0 t1 =
     (if r1 \<le> 0 then t0 else inverse_loop r1 (r0 mod r1) t1 (t0 - (r0 div r1) * t1))"
  by pat_completeness auto
termination
  by (relation "measure (\<lambda>(r0, r1, t0, t1). nat r1)") (auto simp: pos_mod_bound)

declare inverse_loop.simps [simp del]

definition fr_invert :: "fr \<Rightarrow> error + fr" where
  "fr_invert x =
     (if x = 0 then Inl degenerate_challenge
      else Inr (of_int (inverse_loop (int CARD(fr)) (Rep_bit1 x) 0 1)))"

section \<open>Public inputs: \<^verbatim>\<open>compute_public_input_delta\<close>\<close>

text \<open>
  One pass of the loop body of \<^verbatim>\<open>compute_public_input_delta\<close> over the state
  \<open>(numerator, denominator, work_root)\<close>. \<open>coset_generator0\<close> stands for
  \<^verbatim>\<open>fr::field_t::coset_generators[0]\<close>, a constant of the field library.
\<close>

fun delta_row :: "'a::comm_ring_1 \<Rightarrow> 'a \<Rightarrow> 'a \<Rightarrow> 'a \<Rightarrow> 'a \<Rightarrow> 'a \<times> 'a \<times> 'a \<Rightarrow> 'a \<times> 'a \<times> 'a" where
  "delta_row coset_generator0 beta gamma subgroup_generator witness (numerator, denominator, work_root) =
     (let T0 = witness + gamma;
          T1 = work_root * beta;
          T2 = T1 * coset_generator0;
          T1 = T1 + T0;
          T2 = T2 + T0;
          numerator = numerator * T2;
          denominator = denominator * T1;
          work_root = work_root * subgroup_generator
      in (numerator, denominator, work_root))"

definition delta_loop :: "'a::comm_ring_1 \<Rightarrow> 'a list \<Rightarrow> 'a \<Rightarrow> 'a \<Rightarrow> 'a \<Rightarrow> 'a \<times> 'a \<times> 'a" where
  "delta_loop coset_generator0 inputs beta gamma subgroup_generator =
     fold (delta_row coset_generator0 beta gamma subgroup_generator) inputs (1, 1, 1)"

text \<open>
  The function itself; \<open>invert\<close> is the field inversion it calls once, on the accumulated
  denominator. The function has no test of the denominator: it returns the product when
  the inversion returns, and does not return when the inversion does not.
\<close>

definition compute_public_input_delta ::
  "('a::comm_ring_1 \<Rightarrow> error + 'a) \<Rightarrow> 'a \<Rightarrow> 'a list \<Rightarrow> 'a \<Rightarrow> 'a \<Rightarrow> 'a \<Rightarrow> error + 'a" where
  "compute_public_input_delta invert coset_generator0 inputs beta gamma subgroup_generator =
     (case delta_loop coset_generator0 inputs beta gamma subgroup_generator of
        (numerator, denominator, work_root) \<Rightarrow>
          (case invert denominator of
             Inl e \<Rightarrow> Inl e
           | Inr denominator \<Rightarrow>
               (let T0 = denominator * numerator
                in Inr T0)))"

section \<open>Keys, transcript and the shared buffers\<close>

text \<open>
  A polynomial is the memory of its coefficients (or evaluations), read and written by
  index without a bounds check, as the source does through \<^verbatim>\<open>operator[]\<close> and raw
  pointers. An evaluation domain is split into \<open>num_threads\<close> chunks of \<open>thread_size\<close>
  consecutive indices. The transcript hands out challenges and elements by name; the
  conversion from its byte buffers (\<^verbatim>\<open>fr::serialize_from_buffer\<close>) is part of the lookup.
\<close>

type_synonym 'a polynomial = "nat \<Rightarrow> 'a"

record evaluation_domain =
  num_threads :: nat
  thread_size :: nat

record 'a transcript =
  get_challenge :: "string \<Rightarrow> 'a"
  get_element :: "string \<Rightarrow> 'a"

record 'a proving_key =
  wire_ffts :: "string \<rightharpoonup> 'a polynomial"
  quotient_large :: "'a polynomial"
  small_domain :: evaluation_domain
  large_domain :: evaluation_domain

record 'p verification_key =
  constraint_selectors :: "string \<rightharpoonup> 'p"

text \<open>The selector polynomials a prover widget is bound to at construction.\<close>

record 'a prover_turbo_arithmetic_widget =
  q_1 :: "'a polynomial"
  q_2 :: "'a polynomial"
  q_3 :: "'a polynomial"
  q_4 :: "'a polynomial"
  q_5 :: "'a polynomial"
  q_m :: "'a polynomial"
  q_c :: "'a polynomial"
  q_arith :: "'a polynomial"
  q_1_fft :: "'a polynomial"
  q_2_fft :: "'a polynomial"
  q_3_fft :: "'a polynomial"
  q_4_fft :: "'a polynomial"
  q_5_fft :: "'a polynomial"
  q_m_fft :: "'a polynomial"
  q_c_fft :: "'a polynomial"
  q_arith_fft :: "'a polynomial"

text \<open>
  The two nested loops over a domain: \<open>j\<close> over the threads, \<open>i\<close> over the chunk of thread
  \<open>j\<close>. \<^verbatim>\<open>compute_quotient_contribution\<close> writes them out (the OpenMP pragma runs the chunks
  in parallel; they write disjoint indices, and the model runs them in order). Indices are
  natural numbers: the products with \<open>thread_size\<close> stay within the buffers, far below
  the range of \<^verbatim>\<open>size_t\<close>.
  Modelled from the spec: the macro \<^verbatim>\<open>ITERATE_OVER_DOMAIN_START\<close> used by
  \<^verbatim>\<open>compute_linear_contribution\<close> is not among the sources; it is taken to be the same
  pair of loops over the given domain.
\<close>

definition iterate_over_domain :: "evaluation_domain \<Rightarrow> (nat \<Rightarrow> 's \<Rightarrow> 's) \<Rightarrow> 's \<Rightarrow> 's" where
  "iterate_over_domain domain body s =
     fold (\<lambda>j. fold body [j * thread_size domain ..< (j + 1) * thread_size domain])
       [0 ..< num_threads domain] s"

section \<open>The prover widget\<close>

text \<open>The quad extraction term of the quotient loop (source lines 334 to 351).\<close>

definition prover_quad_extraction :: "'a::comm_ring_1 \<Rightarrow> 'a \<Rightarrow> 'a" where
  "prover_quad_extraction w_3 w_4 =
     (let seven = 7;
          T2 = w_4 + w_4;
          T2 = T2 + T2;
          T2 = w_3 - T2;
          T3 = T2\<^sup>2;
          T3 = T3 + T3;
          T4 = T2 + T2;
          T4 = T4 + T2;
          T5 = T4 + T4;
          T4 = T4 + T5;
          T4 = T4 - T3;
          T4 = T4 - seven;
          T2 = T2 * T4
      in T2)"

text \<open>The body of the quotient loop at index \<open>i\<close>, on the quotient buffer.\<close>

definition quotient_row ::
  "'a::comm_ring_1 prover_turbo_arithmetic_widget \<Rightarrow> 'a \<Rightarrow> 'a \<Rightarrow>
   'a polynomial \<Rightarrow> 'a polynomial \<Rightarrow> 'a polynomial \<Rightarrow> 'a polynomial \<Rightarrow>
   nat \<Rightarrow> 'a polynomial \<Rightarrow> 'a polynomial" where
  "quotient_row widget alpha alpha_base w_1_fft w_2_fft w_3_fft w_4_fft i quotient_poly =
     (let two = 2;
          T0 = w_1_fft i * q_m_fft widget i;
          T0 = T0 * w_2_fft i;
          T1 = w_1_fft i * q_1_fft widget i;
          T2 = w_2_fft i * q_2_fft widget i;
          T3 = w_3_fft i * q_3_fft widget i;
          T4 = w_4_fft i * q_4_fft widget i;
          T5 = (w_4_fft i)\<^sup>2;
          T5 = T5 - w_4_fft i;
          T6 = w_4_fft i - two;
          T5 = T5 * T6;
          T5 = T5 * q_5_fft widget i;
          T5 = T5 * alpha;
          T0 = T0 + T1;
          T2 = T2 + T3;
          T4 = T4 + T5;
          T0 = T0 + T2;
          T0 = T0 + T4;
          T0 = T0 + q_c_fft widget i;
          T0 = T0 * q_arith_fft widget i;
          T1 = (q_arith_fft widget i)\<^sup>2;
          T1 = T1 - q_arith_fft widget i;
          T2 = prover_quad_extraction (w_3_fft i) (w_4_fft i);
          T1 = T1 * T2;
          T0 = T0 + T1;
          T0 = T0 * alpha_base
      in quotient_poly(i := quotient_poly i + T0))"

text \<open>
  \<^verbatim>\<open>ProverTurboArithmeticWidget::compute_quotient_contribution\<close>: the four wire lookups
  (each may throw), then the loop over the large domain on \<open>key->quotient_large\<close>. The
  result is the returned scalar and the key with its updated buffer.
\<close>

definition compute_quotient_contribution ::
  "'a::comm_ring_1 prover_turbo_arithmetic_widget \<Rightarrow> 'a proving_key \<Rightarrow> 'a \<Rightarrow> 'a transcript \<Rightarrow>
   error + 'a \<times> 'a proving_key" where
  "compute_quotient_contribution widget key alpha_base transcript =
     (let alpha = get_challenge transcript ''alpha'' in
      case wire_ffts key ''w_1_fft'' of None \<Rightarrow> Inl (out_of_range ''w_1_fft'') | Some w_1_fft \<Rightarrow>
      case wire_ffts key ''w_2_fft'' of None \<Rightarrow> Inl (out_of_range ''w_2_fft'') | Some w_2_fft \<Rightarrow>
      case wire_ffts key ''w_3_fft'' of None \<Rightarrow> Inl (out_of_range ''w_3_fft'') | Some w_3_fft \<Rightarrow>
      case wire_ffts key ''w_4_fft'' of None \<Rightarrow> Inl (out_of_range ''w_4_fft'') | Some w_4_fft \<Rightarrow>
        Inr (alpha_base * alpha\<^sup>2,
             key\<lparr>quotient_large :=
               iterate_over_domain (large_domain key)
                 (quotient_row widget alpha alpha_base w_1_fft w_2_fft w_3_fft w_4_fft)
                 (quotient_large key)\<rparr>))"

text \<open>The body of the loop of \<^verbatim>\<open>compute_linear_contribution\<close> at index \<open>i\<close>, on \<open>r\<close>.\<close>

definition linear_row ::
  "'a::comm_ring_1 prover_turbo_arithmetic_widget \<Rightarrow> 'a \<Rightarrow> 'a \<Rightarrow> 'a \<Rightarrow> 'a \<Rightarrow> 'a \<Rightarrow> 'a \<Rightarrow> 'a \<Rightarrow> 'a \<Rightarrow>
   nat \<Rightarrow> 'a polynomial \<Rightarrow> 'a polynomial" where
  "linear_row widget alpha_base w_l_eval w_r_eval w_o_eval w_4_eval q_arith_eval w_lr is_w_4_bool i r =
     (let T0 = w_lr * q_m widget i;
          T1 = w_l_eval * q_1 widget i;
          T2 = w_r_eval * q_2 widget i;
          T3 = w_o_eval * q_3 widget i;
          T4 = w_4_eval * q_4 widget i;
          T5 = is_w_4_bool * q_5 widget i;
          T0 = T0 + T1;
          T2 = T2 + T3;
          T4 = T4 + T5;
          T0 = T0 + T2;
          T0 = T0 + T4;
          T0 = T0 + q_c widget i;
          T0 = T0 * q_arith_eval;
          T0 = T0 * alpha_base
      in r(i := r i + T0))"

text \<open>
  \<^verbatim>\<open>ProverTurboArithmeticWidget::compute_linear_contribution\<close>: the returned scalar and the
  updated linearisation polynomial \<open>r\<close>.
\<close>

definition compute_linear_contribution ::
  "'a::comm_ring_1 prover_turbo_arithmetic_widget \<Rightarrow> 'a proving_key \<Rightarrow> 'a \<Rightarrow> 'a transcript \<Rightarrow>
   'a polynomial \<Rightarrow> 'a \<times> 'a polynomial" where
  "compute_linear_contribution widget key alpha_base transcript r =
     (let alpha = get_challenge transcript ''alpha'';
          w_l_eval = get_element transcript ''w_1'';
          w_r_eval = get_element transcript ''w_2'';
          w_o_eval = get_element transcript ''w_3'';
          w_4_eval = get_element transcript ''w_4'';
          q_arith_eval = get_element transcript ''q_arith'';
          two = 2;
          w_lr = w_l_eval * w_r_eval;
          is_w_4_bool = (w_4_eval\<^sup>2 - w_4_eval) * (w_4_eval - two);
          is_w_4_bool = is_w_4_bool * alpha;
          r = iterate_over_domain (small_domain key)
                (linear_row widget alpha_base w_l_eval w_r_eval w_o_eval w_4_eval q_arith_eval
                   w_lr is_w_4_bool) r
      in (alpha_base * alpha\<^sup>2, r))"

section \<open>The verifier widget\<close>

text \<open>The quad extraction term of the verifier (source lines 457 to 474).\<close>

definition verifier_quad_extraction :: "'a::comm_ring_1 \<Rightarrow> 'a \<Rightarrow> 'a" where
  "verifier_quad_extraction w_3_eval w_4_eval =
     (let seven = 7;
          T2 = w_4_eval + w_4_eval;
          T2 = T2 + T2;
          T2 = w_3_eval - T2;
          T3 = T2\<^sup>2;
          T3 = T3 + T3;
          T4 = T2 + T2;
          T4 = T4 + T2;
          T5 = T4 + T4;
          T4 = T4 + T5;
          T4 = T4 - T3;
          T4 = T4 - seven;
          T2 = T2 * T4
      in T2)"

text \<open>
  \<^verbatim>\<open>VerifierTurboArithmeticWidget::compute_quotient_evaluation_contribution\<close>: the
  returned scalar and the updated \<open>t_eval\<close>.
\<close>

definition compute_quotient_evaluation_contribution ::
  "'a::comm_ring_1 \<Rightarrow> 'a transcript \<Rightarrow> 'a \<Rightarrow> 'a \<times> 'a" where
  "compute_quotient_evaluation_contribution alpha_base transcript t_eval =
     (let alpha = get_challenge transcript ''alpha'';
          q_arith_eval = get_element transcript ''q_arith'';
          w_3_eval = get_element transcript ''w_3'';
          w_4_eval = get_element transcript ''w_4'';
          T1 = q_arith_eval\<^sup>2;
          T1 = T1 - q_arith_eval;
          T2 = verifier_quad_extraction w_3_eval w_4_eval;
          T1 = T1 * T2;
          T1 = T1 * alpha_base;
          t_eval = t_eval + T1
      in (alpha_base * alpha\<^sup>2, t_eval))"

text \<open>
  \<^verbatim>\<open>VerifierBaseWidget::challenge_coefficients\<close>, built in the source by position:
  \<open>alpha_base\<close>, \<open>alpha_step\<close>, \<open>nu_base\<close>, \<open>nu_step\<close>, \<open>linear_nu\<close>.
\<close>

datatype 'a challenge_coefficients = Challenge_coefficients 'a 'a 'a 'a 'a

text \<open>
  One block of \<^verbatim>\<open>append_scalar_multiplication_inputs\<close>: look the commitment up with
  \<^verbatim>\<open>at\<close>, test it with \<^verbatim>\<open>g1::on_curve\<close> (a predicate of the curve library), and push the
  point and the scalar. The state is the two vectors and the exception in flight, if
  any: the vectors are passed by reference, so what was pushed before a throw stays.
\<close>

fun push_selector ::
  "('p \<Rightarrow> bool) \<Rightarrow> 'p verification_key \<Rightarrow> string \<Rightarrow> 'a \<Rightarrow>
   'p list \<times> 'a list \<times> error option \<Rightarrow> 'p list \<times> 'a list \<times> error option" where
  "push_selector on_curve key name scalar (points, scalars, Some e) = (points, scalars, Some e)"
| "push_selector on_curve key name scalar (points, scalars, None) =
     (case constraint_selectors key name of
        None \<Rightarrow> (points, scalars, Some (out_of_range name))
      | Some commitment \<Rightarrow>
          if on_curve commitment then (points @ [commitment], scalars @ [scalar], None)
          else (points, scalars, None))"

text \<open>
  \<^verbatim>\<open>VerifierTurboArithmeticWidget::append_scalar_multiplication_inputs\<close>: the returned
  coefficients (or the exception) and the two vectors as the call leaves them.
\<close>

fun append_scalar_multiplication_inputs ::
  "('p \<Rightarrow> bool) \<Rightarrow> 'p verification_key \<Rightarrow> 'a::comm_ring_1 challenge_coefficients \<Rightarrow>
   'a transcript \<Rightarrow> 'p list \<Rightarrow> 'a list \<Rightarrow>
   (error + 'a challenge_coefficients) \<times> 'p list \<times> 'a list" where
  "append_scalar_multiplication_inputs on_curve key
     (Challenge_coefficients alpha_base alpha_step nu_base nu_step linear_nu)
     transcript points scalars =
     (let w_l_eval = get_element transcript ''w_1'';
          w_r_eval = get_element transcript ''w_2'';
          w_o_eval = get_element transcript ''w_3'';
          w_4_eval = get_element transcript ''w_4'';
          q_arith_eval = get_element transcript ''q_arith'';
          q_l_term = w_l_eval * alpha_base;
          q_l_term = q_l_term * linear_nu;
          q_l_term = q_l_term * q_arith_eval;
          st = push_selector on_curve key ''Q_1'' q_l_term (points, scalars, None);
          q_r_term = w_r_eval * alpha_base;
          q_r_term = q_r_term * linear_nu;
          q_r_term = q_r_term * q_arith_eval;
          st = push_selector on_curve key ''Q_2'' q_r_term st;
          q_o_term = w_o_eval * alpha_base;
          q_o_term = q_o_term * linear_nu;
          q_o_term = q_o_term * q_arith_eval;
          st = push_selector on_curve key ''Q_3'' q_o_term st;
          q_4_term = w_4_eval * alpha_base;
          q_4_term = q_4_term * linear_nu;
          q_4_term = q_4_term * q_arith_eval;
          st = push_selector on_curve key ''Q_4'' q_4_term st;
          two = 2;
          q_5_term = w_4_eval\<^sup>2;
          q_5_term = q_5_term - w_4_eval;
          q_5_temp = w_4_eval - two;
          q_5_term = q_5_term * q_5_temp;
          q_5_term = q_5_term * alpha_step;
          q_5_term = q_5_term * alpha_base;
          q_5_term = q_5_term * linear_nu;
          q_5_term = q_5_term * q_arith_eval;
          st = push_selector on_curve key ''Q_5'' q_5_term st;
          q_m_term = w_l_eval * w_r_eval;
          q_m_term = q_m_term * alpha_base;
          q_m_term = q_m_term * q_arith_eval;
          q_m_term = q_m_term * linear_nu;
          st = push_selector on_curve key ''Q_M'' q_m_term st;
          q_c_term = alpha_base * linear_nu;
          q_c_term = q_c_term * q_arith_eval;
          st = push_selector on_curve key ''Q_C'' q_c_term st;
          st = push_selector on_curve key ''Q_ARITHMETIC_SELECTOR'' nu_base st
      in case st of
           (points, scalars, Some e) \<Rightarrow> (Inl e, points, scalars)
         | (points, scalars, None) \<Rightarrow>
             (Inr (Challenge_coefficients (alpha_base * alpha_step\<^sup>2) alpha_step
                     (nu_base * nu_step) nu_step linear_nu),
              points, scalars))"

section \<open>Closed forms and claimed forms\<close>

text \<open>The products of the specification, with the powers of the generator written out.\<close>

definition delta_numerator :: "'a::comm_ring_1 \<Rightarrow> 'a list \<Rightarrow> 'a \<Rightarrow> 'a \<Rightarrow> 'a \<Rightarrow> 'a" where
  "delta_numerator k0 v beta gamma g = (\<Prod>i<length v. g ^ i * beta * k0 + v ! i + gamma)"

definition delta_denominator :: "'a::comm_ring_1 list \<Rightarrow> 'a \<Rightarrow> 'a \<Rightarrow> 'a \<Rightarrow> 'a" where
  "delta_denominator v beta gamma g = (\<Prod>i<length v. g ^ i * beta + v ! i + gamma)"

text \<open>
  The gate identity of one row as the specification words it for the quotient
  contribution: the arithmetic part gated by \<open>q_arith\<close>, plus the quad extraction term
  times \<open>q_arith\<^sup>2 - q_arith\<close>.
\<close>

definition claimed_gate_identity ::
  "'a::comm_ring_1 \<Rightarrow> 'a \<Rightarrow> 'a \<Rightarrow> 'a \<Rightarrow> 'a \<Rightarrow> 'a \<Rightarrow> 'a \<Rightarrow> 'a \<Rightarrow> 'a \<Rightarrow> 'a \<Rightarrow> 'a \<Rightarrow> 'a \<Rightarrow> 'a" where
  "claimed_gate_identity qm q1 q2 q3 q4 q5 qc qarith w1 w2 w3 w4 =
     (let d = w3 - 4 * w4 in
      qarith * (qm * w1 * w2 + q1 * w1 + q2 * w2 + q3 * w3 + q4 * w4
                + q5 * (w4\<^sup>2 - w4) * (w4 - 2) + qc)
      + (qarith\<^sup>2 - qarith) * (9 * d - 2 * d\<^sup>2 - 7) * d)"

text \<open>
  The selector names in the order of the blocks of
  \<^verbatim>\<open>append_scalar_multiplication_inputs\<close>, the scalar that goes with each name, and the
  coefficients handed to the next widget.
\<close>

definition selector_names :: "string list" where
  "selector_names =
     [''Q_1'', ''Q_2'', ''Q_3'', ''Q_4'', ''Q_5'', ''Q_M'', ''Q_C'', ''Q_ARITHMETIC_SELECTOR'']"

fun selector_scalars ::
  "'a::comm_ring_1 challenge_coefficients \<Rightarrow> 'a transcript \<Rightarrow> (string \<times> 'a) list" where
  "selector_scalars (Challenge_coefficients alpha_base alpha_step nu_base nu_step linear_nu) transcript =
     (let w_l = get_element transcript ''w_1'';
          w_r = get_element transcript ''w_2'';
          w_o = get_element transcript ''w_3'';
          w_4 = get_element transcript ''w_4'';
          q_arith_z = get_element transcript ''q_arith''
      in [(''Q_1'', w_l * alpha_base * linear_nu * q_arith_z),
          (''Q_2'', w_r * alpha_base * linear_nu * q_arith_z),
          (''Q_3'', w_o * alpha_base * linear_nu * q_arith_z),
          (''Q_4'', w_4 * alpha_base * linear_nu * q_arith_z),
          (''Q_5'', (w_4\<^sup>2 - w_4) * (w_4 - 2) * alpha_step * alpha_base * linear_nu * q_arith_z),
          (''Q_M'', w_l * w_r * alpha_base * linear_nu * q_arith_z),
          (''Q_C'', alpha_base * linear_nu * q_arith_z),
          (''Q_ARITHMETIC_SELECTOR'', nu_base)])"

fun next_challenge :: "'a::comm_ring_1 challenge_coefficients \<Rightarrow> 'a challenge_coefficients" where
  "next_challenge (Challenge_coefficients alpha_base alpha_step nu_base nu_step linear_nu) =
     Challenge_coefficients (alpha_base * alpha_step\<^sup>2) alpha_step (nu_base * nu_step) nu_step
       linear_nu"

text \<open>
  The candidates a call pushes: those before the first name missing from the key whose
  commitment is on the curve.
\<close>

definition pushed_selectors ::
  "('p \<Rightarrow> bool) \<Rightarrow> 'p verification_key \<Rightarrow> (string \<times> 'a) list \<Rightarrow> (string \<times> 'a) list" where
  "pushed_selectors on_curve key candidates =
     filter (\<lambda>(name, scalar). on_curve (the (constraint_selectors key name)))
       (takeWhile (\<lambda>(name, scalar). constraint_selectors key name \<noteq> None) candidates)"

section \<open>Concrete inputs\<close>

text \<open>
  A widget, a proving key and a transcript over \<open>fr\<close> with one thread of one index: all
  selectors zero but \<open>q_5 = q_arith = 1\<close>, the fourth wire equal to \<open>3\<close>, \<open>alpha = 2\<close>, and
  the evaluations \<open>w_3(z) = 2\<close>, \<open>q_arith(z) = 2\<close>.
\<close>

definition example_widget :: "fr prover_turbo_arithmetic_widget" where
  "example_widget =
     \<lparr>q_1 = (\<lambda>i. 0), q_2 = (\<lambda>i. 0), q_3 = (\<lambda>i. 0), q_4 = (\<lambda>i. 0), q_5 = (\<lambda>i. 1),
      q_m = (\<lambda>i. 0), q_c = (\<lambda>i. 0), q_arith = (\<lambda>i. 1),
      q_1_fft = (\<lambda>i. 0), q_2_fft = (\<lambda>i. 0), q_3_fft = (\<lambda>i. 0), q_4_fft = (\<lambda>i. 0),
      q_5_fft = (\<lambda>i. 1), q_m_fft = (\<lambda>i. 0), q_c_fft = (\<lambda>i. 0), q_arith_fft = (\<lambda>i. 1)\<rparr>"

definition example_key :: "fr proving_key" where
  "example_key =
     \<lparr>wire_ffts = [''w_1_fft'' \<mapsto> (\<lambda>i. 0), ''w_2_fft'' \<mapsto> (\<lambda>i. 0), ''w_3_fft'' \<mapsto> (\<lambda>i. 0),
                   ''w_4_fft'' \<mapsto> (\<lambda>i. 3)],
      quotient_large = (\<lambda>i. 0),
      small_domain = \<lparr>num_threads = 1, thread_size = 1\<rparr>,
      large_domain = \<lparr>num_threads = 1, thread_size = 1\<rparr>\<rparr>"

definition example_transcript :: "fr transcript" where
  "example_transcript =
     \<lparr>get_challenge = (\<lambda>name. 2),
      get_element = (\<lambda>name. if name = ''w_3'' then 2 else if name = ''q_arith'' then 2 else 0)\<rparr>"

text \<open>
  A verification key whose commitments are pairs of integers, tested against the curve
  equation \<open>y\<^sup>2 = x\<^sup>3 + 3\<close>: five commitments on the curve, three (\<open>Q_2\<close>, \<open>Q_5\<close>, \<open>Q_C\<close>) off
  it. The evaluations are \<open>w_1(z) = 2\<close>, \<open>w_2(z) = 3\<close>, \<open>w_3(z) = 5\<close>, \<open>w_4(z) = 3\<close>,
  \<open>q_arith(z) = 1\<close>.
\<close>

fun example_on_curve :: "int \<times> int \<Rightarrow> bool" where
  "example_on_curve (x, y) = (y * y = x * x * x + 3)"

definition example_verification_key :: "(int \<times> int) verification_key" where
  "example_verification_key =
     \<lparr>constraint_selectors =
        [''Q_1'' \<mapsto> (1, 2), ''Q_2'' \<mapsto> (0, 0), ''Q_3'' \<mapsto> (1, 2), ''Q_4'' \<mapsto> (1, - 2),
         ''Q_5'' \<mapsto> (0, 0), ''Q_M'' \<mapsto> (1, 2), ''Q_C'' \<mapsto> (0, 0),
         ''Q_ARITHMETIC_SELECTOR'' \<mapsto> (1, 2)]\<rparr>"

definition example_evaluations :: "fr transcript" where
  "example_evaluations =
     \<lparr>get_challenge = (\<lambda>name. 2),
      get_element = (\<lambda>name. if name = ''w_1'' then 2 else if name = ''w_2'' then 3
         else if name = ''w_3'' then 5 else if name = ''w_4'' then 3 else 1)\<rparr>"

text \<open>The field element \<open>7 / 2\<close>, that is \<open>(p + 7) / 2\<close>.\<close>

definition half_seven :: fr where
  "half_seven = 10944121435919637611123202872628637544274182200208017171849102093287904247812"

declare append_scalar_multiplication_inputs.simps [simp del]

section \<open>Values of the field inversion\<close>

lemma fr_invert_values:
  "fr_invert 0 = Inl degenerate_challenge"
  "fr_invert 1 = Inr 1"
  "fr_invert 10 =
     Inr 15321770010287492655572484021680092561983855080291224040588742930603065946932"
  "fr_invert 22 =
     Inr 14923801958072233106077094826311778469464793909374568870703321036301687610648"
  by (simp_all add: fr_invert_def bit1.Rep_0 bit1.Rep_1 bit1.Rep_numeral inverse_loop.simps)

lemma fr_small_distinct:
  "(1::fr) \<noteq> 0" "(2::fr) \<noteq> 0" "(2::fr) \<noteq> 1" "(3::fr) \<noteq> 0" "(3::fr) \<noteq> 1" "(6::fr) \<noteq> 0"
  by simp_all

section \<open>Properties of the public-input delta\<close>

lemma fold_delta_row:
  "fold (delta_row k0 beta gamma g) v (n, d, w) =
     (n * (\<Prod>i<length v. w * g ^ i * beta * k0 + v ! i + gamma),
      d * (\<Prod>i<length v. w * g ^ i * beta + v ! i + gamma),
      w * g ^ length v)"
proof (induction v arbitrary: n d w)
  case Nil
  show ?case by simp
next
  case (Cons x xs)
  have step: "delta_row k0 beta gamma g x (n, d, w) =
      (n * (w * beta * k0 + x + gamma), d * (w * beta + x + gamma), w * g)"
    by (simp add: Let_def add.assoc)
  have num: "(\<Prod>i<length (x # xs). w * g ^ i * beta * k0 + (x # xs) ! i + gamma) =
      (w * beta * k0 + x + gamma) * (\<Prod>i<length xs. w * g * g ^ i * beta * k0 + xs ! i + gamma)"
    by (simp add: prod.lessThan_Suc_shift mult.assoc del: prod.lessThan_Suc)
  have den: "(\<Prod>i<length (x # xs). w * g ^ i * beta + (x # xs) ! i + gamma) =
      (w * beta + x + gamma) * (\<Prod>i<length xs. w * g * g ^ i * beta + xs ! i + gamma)"
    by (simp add: prod.lessThan_Suc_shift mult.assoc del: prod.lessThan_Suc)
  show ?case
    unfolding fold_Cons comp_apply step Cons.IH num den
    by (simp add: mult.assoc)
qed

lemma delta_loop_closed_form:
  "delta_loop k0 v beta gamma g =
     (delta_numerator k0 v beta gamma g, delta_denominator v beta gamma g, g ^ length v)"
  unfolding delta_loop_def fold_delta_row delta_numerator_def delta_denominator_def
  by simp

text \<open>
  C2. For every list of public inputs and all field elements beta, gamma and
  subgroup_generator, \<^verbatim>\<open>compute_public_input_delta\<close> returns the numerator times the inverse
  of the denominator, the two being the products over the rows \<open>i\<close> of
  \<open>g\<^sup>i * beta * k\<^sub>0 + v\<^sub>i + gamma\<close> and of \<open>g\<^sup>i * beta + v\<^sub>i + gamma\<close>; the loop keeps the power
  \<open>g\<^sup>i\<close> by repeated multiplication (its third component), and the inversion is applied
  once, to the whole denominator (when it does not return, neither does the function).
\<close>

theorem compute_public_input_delta_closed_form:
  "compute_public_input_delta invert k0 v beta gamma g =
     (case invert (delta_denominator v beta gamma g) of
        Inl e \<Rightarrow> Inl e
      | Inr inverted \<Rightarrow> Inr (delta_numerator k0 v beta gamma g * inverted))
   \<and> snd (snd (delta_loop k0 v beta gamma g)) = g ^ length v"
  by (simp add: compute_public_input_delta_def delta_loop_closed_form mult.commute
      split: sum.splits)

text \<open>
  C6 (as the code has it). On the single input \<open>[5]\<close> with beta \<open>2\<close>, gamma \<open>3\<close> and subgroup
  generator \<open>7\<close>, the result is \<open>1 * 2 * k\<^sub>0 + 5 + 3\<close> times the inverse of \<open>1 * 2 + 5 + 3\<close>: the
  first row is multiplied by the power \<open>g\<^sup>0 = 1\<close>, and the generator \<open>7\<close> would only enter
  at a second row.
\<close>

theorem public_input_delta_single_input:
  "compute_public_input_delta invert k0 [5] 2 3 7 =
     (case invert (1 * 2 + 5 + 3) of
        Inl e \<Rightarrow> Inl e
      | Inr inverted \<Rightarrow> Inr ((1 * 2 * k0 + 5 + 3) * inverted))"
  by (simp add: compute_public_input_delta_def delta_loop_def Let_def ac_simps
      split: sum.splits)

text \<open>
  The value \<open>(7 * 2 * k\<^sub>0 + 5 + 3)\<close> times the inverse of \<open>7 * 2 + 5 + 3\<close> is not the
  result: in \<open>fr\<close>, with the coset generator \<open>k\<^sub>0 = 5\<close>, the call returns \<open>18\<close> times the inverse
  of \<open>10\<close>, and the two differ.
\<close>

theorem public_input_delta_single_input_counterexample:
  "compute_public_input_delta fr_invert 5 [5] 2 3 7 =
     Inr (18 * 15321770010287492655572484021680092561983855080291224040588742930603065946932)
   \<and> compute_public_input_delta fr_invert 5 [5] 2 3 7 \<noteq>
     (case fr_invert (7 * 2 + 5 + 3) of
        Inl e \<Rightarrow> Inl e
      | Inr inverted \<Rightarrow> Inr ((7 * 2 * 5 + 5 + 3) * inverted))"
  by (simp add: compute_public_input_delta_def delta_loop_def Let_def fr_invert_values)

text \<open>
  C7. On the empty list of public inputs the result is \<open>1\<close>, whatever beta, gamma and the
  subgroup generator are: both products are \<open>1\<close>, and the inverse of \<open>1\<close> is \<open>1\<close>.
\<close>

theorem public_input_delta_empty:
  "invert 1 = Inr 1 \<Longrightarrow> compute_public_input_delta invert k0 [] beta gamma g = Inr 1"
  by (simp add: compute_public_input_delta_def delta_loop_def)

theorem public_input_delta_empty_witness:
  "fr_invert 1 = Inr 1 \<and> compute_public_input_delta fr_invert 5 [] 2 3 7 = Inr 1"
  using public_input_delta_empty [of fr_invert 5 2 3 7] by (simp add: fr_invert_values)

text \<open>
  C9. If some row term \<open>g\<^sup>i * beta + v\<^sub>i + gamma\<close> is the additive identity, the
  accumulated denominator is zero and the run aborts instead of returning a delta value:
  the zero denominator goes to the field inversion, which does not return.
\<close>

theorem public_input_delta_zero_denominator:
  fixes v :: "fr list"
  assumes "\<exists>i<length v. g ^ i * beta + v ! i + gamma = 0"
  shows "delta_denominator v beta gamma g = 0
    \<and> compute_public_input_delta fr_invert k0 v beta gamma g = Inl degenerate_challenge"
proof -
  from assms have "\<exists>i\<in>{..<length v}. g ^ i * beta + v ! i + gamma = 0"
    by blast
  then have zero: "delta_denominator v beta gamma g = 0"
    unfolding delta_denominator_def by (intro prod_zero) simp_all
  have "fr_invert 0 = Inl degenerate_challenge"
    by (simp add: fr_invert_def)
  then show ?thesis
    by (simp add: compute_public_input_delta_def delta_loop_closed_form zero)
qed

theorem public_input_delta_zero_denominator_witness:
  "(\<exists>i<length [1::fr]. 7 ^ i * 1 + [1] ! i + (- 2) = (0::fr))
   \<and> delta_denominator [1::fr] 1 (- 2) 7 = 0
   \<and> compute_public_input_delta fr_invert 5 [1] 1 (- 2) 7 = Inl degenerate_challenge"
proof -
  have row: "\<exists>i<length [1::fr]. 7 ^ i * 1 + [1] ! i + (- 2) = (0::fr)"
    by (rule exI [of _ 0]) simp
  from public_input_delta_zero_denominator [OF row, of 5] row
  show ?thesis by blast
qed

section \<open>Loops over a domain\<close>

lemma fold_pointwise_update:
  assumes body: "\<And>i s. body i s = s(i := s i + g i)"
  shows "fold body [a ..< b] s = (\<lambda>i. if a \<le> i \<and> i < b then s i + g i else s i)"
proof (induction b)
  case 0
  show ?case by simp
next
  case (Suc b)
  show ?case
  proof (cases "a \<le> b")
    case True
    then have "fold body [a ..< Suc b] s = body b (fold body [a ..< b] s)"
      by simp
    also have "\<dots> = body b (\<lambda>i. if a \<le> i \<and> i < b then s i + g i else s i)"
      by (simp only: Suc.IH)
    also have "\<dots> = (\<lambda>i. if a \<le> i \<and> i < Suc b then s i + g i else s i)"
      unfolding body using True by (auto simp: fun_eq_iff)
    finally show ?thesis .
  next
    case False
    then show ?thesis by (auto simp: fun_eq_iff)
  qed
qed

lemma iterate_over_domain_pointwise:
  assumes body: "\<And>i s. body i s = s(i := s i + g i)"
  shows "iterate_over_domain domain body s =
    (\<lambda>i. if i < num_threads domain * thread_size domain then s i + g i else s i)"
proof -
  have threads: "fold (\<lambda>j. fold body [j * t ..< (j + 1) * t]) [0 ..< n] s =
      (\<lambda>i. if i < n * t then s i + g i else s i)" for n t
  proof (induction n)
    case 0
    show ?case by simp
  next
    case (Suc n)
    let ?F = "\<lambda>j. fold body [j * t ..< (j + 1) * t]"
    have "fold ?F [0 ..< Suc n] s = fold body [n * t ..< (n + 1) * t] (fold ?F [0 ..< n] s)"
      by simp
    also have "\<dots> = fold body [n * t ..< (n + 1) * t] (\<lambda>i. if i < n * t then s i + g i else s i)"
      by (simp only: Suc.IH)
    also have "\<dots> = (\<lambda>i. if i < Suc n * t then s i + g i else s i)"
      unfolding fold_pointwise_update [of body g, OF body]
      by (auto simp: fun_eq_iff)
    finally show ?case .
  qed
  show ?thesis unfolding iterate_over_domain_def by (rule threads)
qed

section \<open>The quotient contribution\<close>

lemma prover_quad_extraction_eq:
  "prover_quad_extraction w_3 w_4 =
     (9 * (w_3 - 4 * w_4) - 2 * (w_3 - 4 * w_4)\<^sup>2 - 7) * (w_3 - 4 * w_4)"
  by (simp add: prover_quad_extraction_def Let_def power2_eq_square algebra_simps)

lemma verifier_quad_extraction_eq:
  "verifier_quad_extraction w_3 w_4 =
     (9 * (w_3 - 4 * w_4) - 2 * (w_3 - 4 * w_4)\<^sup>2 - 7) * (w_3 - 4 * w_4)"
  by (simp add: verifier_quad_extraction_def Let_def power2_eq_square algebra_simps)

lemma quotient_row_eq:
  "quotient_row widget alpha alpha_base w1 w2 w3 w4 i q =
     q(i := q i + alpha_base *
        (q_arith_fft widget i *
           (q_m_fft widget i * w1 i * w2 i + q_1_fft widget i * w1 i + q_2_fft widget i * w2 i
            + q_3_fft widget i * w3 i + q_4_fft widget i * w4 i
            + q_5_fft widget i * alpha * ((w4 i)\<^sup>2 - w4 i) * (w4 i - 2) + q_c_fft widget i)
         + ((q_arith_fft widget i)\<^sup>2 - q_arith_fft widget i)
           * ((9 * (w3 i - 4 * w4 i) - 2 * (w3 i - 4 * w4 i)\<^sup>2 - 7) * (w3 i - 4 * w4 i))))"
  unfolding quotient_row_def prover_quad_extraction_eq Let_def
  by (rule arg_cong [where f = "\<lambda>v. q(i := v)"]) (simp add: algebra_simps power2_eq_square)

lemma compute_quotient_contribution_eq:
  assumes "wire_ffts key ''w_1_fft'' = Some w1" "wire_ffts key ''w_2_fft'' = Some w2"
    "wire_ffts key ''w_3_fft'' = Some w3" "wire_ffts key ''w_4_fft'' = Some w4"
  shows "compute_quotient_contribution widget key alpha_base transcript =
     Inr (alpha_base * (get_challenge transcript ''alpha'')\<^sup>2,
          key\<lparr>quotient_large := \<lambda>i.
            if i < num_threads (large_domain key) * thread_size (large_domain key)
            then quotient_large key i + alpha_base *
              (q_arith_fft widget i *
                 (q_m_fft widget i * w1 i * w2 i + q_1_fft widget i * w1 i
                  + q_2_fft widget i * w2 i + q_3_fft widget i * w3 i + q_4_fft widget i * w4 i
                  + q_5_fft widget i * get_challenge transcript ''alpha''
                      * ((w4 i)\<^sup>2 - w4 i) * (w4 i - 2)
                  + q_c_fft widget i)
               + ((q_arith_fft widget i)\<^sup>2 - q_arith_fft widget i)
                 * ((9 * (w3 i - 4 * w4 i) - 2 * (w3 i - 4 * w4 i)\<^sup>2 - 7) * (w3 i - 4 * w4 i)))
            else quotient_large key i\<rparr>)"
  unfolding compute_quotient_contribution_def Let_def
  by (simp add: assms iterate_over_domain_pointwise [OF quotient_row_eq])

lemma example_key_wires:
  "wire_ffts example_key ''w_1_fft'' = Some (\<lambda>i. 0)"
  "wire_ffts example_key ''w_2_fft'' = Some (\<lambda>i. 0)"
  "wire_ffts example_key ''w_3_fft'' = Some (\<lambda>i. 0)"
  "wire_ffts example_key ''w_4_fft'' = Some (\<lambda>i. 3)"
  by (simp_all add: example_key_def)

text \<open>
  C1 (as the code has it). With the four wire polynomials in the key, for every index \<open>i\<close>
  of the large domain (the indices below \<open>num_threads * thread_size\<close>) the call adds to
  the quotient buffer at \<open>i\<close> exactly \<open>alpha_base\<close> times
  \<open>q_arith\<^sub>i * (q_m\<^sub>i * w1\<^sub>i * w2\<^sub>i + q1\<^sub>i * w1\<^sub>i + q2\<^sub>i * w2\<^sub>i + q3\<^sub>i * w3\<^sub>i + q4\<^sub>i * w4\<^sub>i
    + q5\<^sub>i * alpha * (w4\<^sub>i\<^sup>2 - w4\<^sub>i) * (w4\<^sub>i - 2) + q_c\<^sub>i)
    + (q_arith\<^sub>i\<^sup>2 - q_arith\<^sub>i) * (9 * d - 2 * d\<^sup>2 - 7) * d\<close> with \<open>d = w3\<^sub>i - 4 * w4\<^sub>i\<close>,
  where the \<open>q5\<close> term carries the challenge \<open>alpha\<close>; it leaves every other entry of the
  buffer and every other part of the key as it was, and returns \<open>alpha_base * alpha\<^sup>2\<close>.
\<close>

theorem quotient_contribution_accumulates:
  assumes "wire_ffts key ''w_1_fft'' = Some w1" "wire_ffts key ''w_2_fft'' = Some w2"
    "wire_ffts key ''w_3_fft'' = Some w3" "wire_ffts key ''w_4_fft'' = Some w4"
  shows "compute_quotient_contribution widget key alpha_base transcript =
     Inr (alpha_base * (get_challenge transcript ''alpha'')\<^sup>2,
          key\<lparr>quotient_large := \<lambda>i.
            if i < num_threads (large_domain key) * thread_size (large_domain key)
            then quotient_large key i + alpha_base *
              (q_arith_fft widget i *
                 (q_m_fft widget i * w1 i * w2 i + q_1_fft widget i * w1 i
                  + q_2_fft widget i * w2 i + q_3_fft widget i * w3 i + q_4_fft widget i * w4 i
                  + q_5_fft widget i * get_challenge transcript ''alpha''
                      * ((w4 i)\<^sup>2 - w4 i) * (w4 i - 2)
                  + q_c_fft widget i)
               + ((q_arith_fft widget i)\<^sup>2 - q_arith_fft widget i)
                 * ((9 * (w3 i - 4 * w4 i) - 2 * (w3 i - 4 * w4 i)\<^sup>2 - 7) * (w3 i - 4 * w4 i)))
            else quotient_large key i\<rparr>)"
  using assms by (rule compute_quotient_contribution_eq)

theorem quotient_contribution_accumulates_witness:
  "wire_ffts example_key ''w_1_fft'' = Some (\<lambda>i. 0)
   \<and> wire_ffts example_key ''w_2_fft'' = Some (\<lambda>i. 0)
   \<and> wire_ffts example_key ''w_3_fft'' = Some (\<lambda>i. 0)
   \<and> wire_ffts example_key ''w_4_fft'' = Some (\<lambda>i. 3)
   \<and> (case compute_quotient_contribution example_widget example_key 1 example_transcript of
        Inl e \<Rightarrow> None
      | Inr (ret, key') \<Rightarrow> Some (ret, quotient_large key' 0, quotient_large key' 1)) =
       Some (4, 12, 0)"
  using quotient_contribution_accumulates
    [OF example_key_wires, of example_widget 1 example_transcript] example_key_wires
  by (simp add: example_key_def example_widget_def example_transcript_def)

text \<open>
  The sum with the \<open>q5\<close> term without \<open>alpha\<close> is not what is added. On the concrete widget, with
  \<open>alpha_base = 1\<close>, the call returns \<open>4\<close> and leaves \<open>12\<close> at index \<open>0\<close> of a buffer that held
  \<open>0\<close>; the stated sum there is \<open>6\<close>.
\<close>

theorem quotient_contribution_claimed_term_counterexample:
  "(case compute_quotient_contribution example_widget example_key 1 example_transcript of
      Inl e \<Rightarrow> None | Inr (ret, key') \<Rightarrow> Some (ret, quotient_large key' 0)) = Some (4, 12)
   \<and> quotient_large example_key 0
       + 1 * claimed_gate_identity (q_m_fft example_widget 0) (q_1_fft example_widget 0)
           (q_2_fft example_widget 0) (q_3_fft example_widget 0) (q_4_fft example_widget 0)
           (q_5_fft example_widget 0) (q_c_fft example_widget 0) (q_arith_fft example_widget 0)
           0 0 0 3 = 6
   \<and> (12::fr) \<noteq> 6"
  using compute_quotient_contribution_eq
    [OF example_key_wires, of example_widget 1 example_transcript]
  by (simp add: example_key_def example_widget_def example_transcript_def
      claimed_gate_identity_def)

section \<open>The linear contribution\<close>

lemma linear_row_eq:
  "linear_row widget alpha_base wl wr wo w4 qa (wl * wr) ((w4\<^sup>2 - w4) * (w4 - 2) * alpha) i r =
     r(i := r i + alpha_base *
        (qa * (q_m widget i * wl * wr + q_1 widget i * wl + q_2 widget i * wr
            + q_3 widget i * wo + q_4 widget i * w4
            + q_5 widget i * alpha * (w4\<^sup>2 - w4) * (w4 - 2) + q_c widget i)))"
  unfolding linear_row_def Let_def
  by (rule arg_cong [where f = "\<lambda>v. r(i := v)"]) (simp add: algebra_simps power2_eq_square)

lemma compute_linear_contribution_eq:
  "compute_linear_contribution widget key alpha_base transcript r =
     (alpha_base * (get_challenge transcript ''alpha'')\<^sup>2,
      \<lambda>i. if i < num_threads (small_domain key) * thread_size (small_domain key)
          then r i + alpha_base *
            (get_element transcript ''q_arith'' *
               (q_m widget i * get_element transcript ''w_1'' * get_element transcript ''w_2''
                + q_1 widget i * get_element transcript ''w_1''
                + q_2 widget i * get_element transcript ''w_2''
                + q_3 widget i * get_element transcript ''w_3''
                + q_4 widget i * get_element transcript ''w_4''
                + q_5 widget i * get_challenge transcript ''alpha''
                    * ((get_element transcript ''w_4'')\<^sup>2 - get_element transcript ''w_4'')
                    * (get_element transcript ''w_4'' - 2)
                + q_c widget i))
          else r i)"
  unfolding compute_linear_contribution_def Let_def
  by (simp add: iterate_over_domain_pointwise [OF linear_row_eq])

text \<open>
  C3 (as the code has it). At every index \<open>i\<close> of the small domain the call adds to \<open>r\<close> the
  arithmetic part of the gate identity only: \<open>alpha_base * q_arith(z)\<close> times the
  multiplication term, the four linear terms, the \<open>q_5\<close> term (with \<open>alpha\<close>) and the
  constant term, with the evaluations \<open>w_1(z)\<close> to \<open>w_4(z)\<close> and \<open>q_arith(z)\<close> from the
  transcript against the selector polynomials at \<open>i\<close>. The secondary term of the
  quotient contribution is not added. Every other entry of \<open>r\<close> is unchanged, and the call
  returns \<open>alpha_base * alpha\<^sup>2\<close>.
\<close>

theorem linear_contribution_accumulates:
  "compute_linear_contribution widget key alpha_base transcript r =
     (alpha_base * (get_challenge transcript ''alpha'')\<^sup>2,
      \<lambda>i. if i < num_threads (small_domain key) * thread_size (small_domain key)
          then r i + alpha_base *
            (get_element transcript ''q_arith'' *
               (q_m widget i * get_element transcript ''w_1'' * get_element transcript ''w_2''
                + q_1 widget i * get_element transcript ''w_1''
                + q_2 widget i * get_element transcript ''w_2''
                + q_3 widget i * get_element transcript ''w_3''
                + q_4 widget i * get_element transcript ''w_4''
                + q_5 widget i * get_challenge transcript ''alpha''
                    * ((get_element transcript ''w_4'')\<^sup>2 - get_element transcript ''w_4'')
                    * (get_element transcript ''w_4'' - 2)
                + q_c widget i))
          else r i)"
  by (rule compute_linear_contribution_eq)

text \<open>
  With \<open>q_arith(z) = 2\<close>, \<open>w_3(z) = 2\<close> and \<open>w_4(z) = 0\<close> the secondary term of the gate
  identity is \<open>(4 - 2) * 6 = 12\<close> and the arithmetic part is \<open>0\<close>: the full identity
  would add \<open>12\<close> at index \<open>0\<close>, and the call adds nothing.
\<close>

theorem linear_contribution_secondary_term_counterexample:
  "snd (compute_linear_contribution example_widget example_key 1 example_transcript (\<lambda>i. 0)) 0 = 0
   \<and> (\<lambda>i. 0) (0::nat)
       + 1 * claimed_gate_identity (q_m example_widget 0) (q_1 example_widget 0)
           (q_2 example_widget 0) (q_3 example_widget 0) (q_4 example_widget 0)
           (q_5 example_widget 0) (q_c example_widget 0)
           (get_element example_transcript ''q_arith'')
           (get_element example_transcript ''w_1'') (get_element example_transcript ''w_2'')
           (get_element example_transcript ''w_3'') (get_element example_transcript ''w_4'')
       = (12::fr)
   \<and> (0::fr) \<noteq> 12"
  by (simp add: compute_linear_contribution_eq example_key_def example_widget_def
      example_transcript_def claimed_gate_identity_def)

section \<open>The quad extraction term\<close>

lemma quad_root:
  fixes d :: "'a::comm_ring_1"
  assumes "2 * d = 7"
  shows "(9 * d - 2 * d\<^sup>2 - 7) * d = 0"
proof -
  have "2 * d\<^sup>2 = (2 * d) * d"
    by (simp add: power2_eq_square)
  also have "\<dots> = 7 * d"
    by (simp only: assms)
  finally have "9 * d - 2 * d\<^sup>2 - 7 = 2 * d - 7"
    by (simp add: algebra_simps)
  then show ?thesis by (simp add: assms)
qed

lemma quad_term_values:
  "(9 * 0 - 2 * 0\<^sup>2 - 7) * 0 = (0::'a::comm_ring_1)"
  "(9 * 1 - 2 * 1\<^sup>2 - 7) * 1 = (0::'a::comm_ring_1)"
  "(9 * 2 - 2 * 2\<^sup>2 - 7) * 2 = (6::'a::comm_ring_1)"
  "(9 * 3 - 2 * 3\<^sup>2 - 7) * 3 = (6::'a::comm_ring_1)"
  by simp_all

lemma quad_term_factors:
  fixes d :: "'a::comm_ring_1"
  shows "(9 * d - 2 * d\<^sup>2 - 7) * d = (7 - 2 * d) * (d - 1) * d"
  by (simp add: algebra_simps power2_eq_square)

text \<open>In \<open>fr\<close> the equation \<open>2 * d = 7\<close> has the one solution \<open>7 / 2\<close>, since \<open>2\<close> is invertible.\<close>

lemma fr_half_seven_unique:
  fixes d :: fr
  shows "2 * d = 7 \<longleftrightarrow> d = half_seven"
proof
  assume eq: "2 * d = 7"
  let ?h = "10944121435919637611123202872628637544274182200208017171849102093287904247809::fr"
  have unit: "?h * 2 = 1" by simp
  have "d = (?h * 2) * d" by (simp only: unit mult_1)
  also have "\<dots> = ?h * (2 * d)" by (simp only: mult.assoc)
  also have "\<dots> = ?h * 7" by (simp only: eq)
  also have "\<dots> = half_seven" by (simp add: half_seven_def)
  finally show "d = half_seven" .
next
  assume "d = half_seven"
  then show "2 * d = 7" by (simp add: half_seven_def)
qed

text \<open>
  C5 (as the code has it). For every field element \<open>d = w_3 - 4 * w_4\<close> the prover's
  quotient path and the verifier's quotient-evaluation path compute the same term
  \<open>(9 * d - 2 * d\<^sup>2 - 7) * d\<close>. It is zero if \<open>d\<close> is \<open>0\<close>, \<open>1\<close> or \<open>7 / 2\<close> (the \<open>d\<close> with
  \<open>2 * d = 7\<close>) and, the field having no zero divisors, for no other \<open>d\<close>; it is \<open>6\<close> if \<open>d\<close> is
  \<open>2\<close> or \<open>3\<close>, which is not zero where \<open>6\<close> is not zero, as in \<open>fr\<close>.
\<close>

theorem quad_extraction_roots:
  fixes w_3 w_4 :: "'a::comm_ring_1"
  shows "prover_quad_extraction w_3 w_4 = verifier_quad_extraction w_3 w_4
    \<and> prover_quad_extraction w_3 w_4 =
        (9 * (w_3 - 4 * w_4) - 2 * (w_3 - 4 * w_4)\<^sup>2 - 7) * (w_3 - 4 * w_4)
    \<and> (w_3 - 4 * w_4 = 0 \<or> w_3 - 4 * w_4 = 1 \<or> 2 * (w_3 - 4 * w_4) = 7 \<longrightarrow>
         prover_quad_extraction w_3 w_4 = 0)
    \<and> ((\<forall>a b::'a. a * b = 0 \<longrightarrow> a = 0 \<or> b = 0) \<and> prover_quad_extraction w_3 w_4 = 0 \<longrightarrow>
         w_3 - 4 * w_4 = 0 \<or> w_3 - 4 * w_4 = 1 \<or> 2 * (w_3 - 4 * w_4) = 7)
    \<and> (w_3 - 4 * w_4 = 2 \<or> w_3 - 4 * w_4 = 3 \<longrightarrow>
         prover_quad_extraction w_3 w_4 = 6
         \<and> ((6::'a) \<noteq> 0 \<longrightarrow> prover_quad_extraction w_3 w_4 \<noteq> 0))"
proof -
  define d where "d = w_3 - 4 * w_4"
  have p: "prover_quad_extraction w_3 w_4 = (9 * d - 2 * d\<^sup>2 - 7) * d"
    unfolding d_def by (rule prover_quad_extraction_eq)
  have v: "verifier_quad_extraction w_3 w_4 = (9 * d - 2 * d\<^sup>2 - 7) * d"
    unfolding d_def by (rule verifier_quad_extraction_eq)
  have roots: "(9 * d - 2 * d\<^sup>2 - 7) * d = 0" if "d = 0 \<or> d = 1 \<or> 2 * d = 7"
    using that
  proof (elim disjE)
    assume "d = 0"
    then show ?thesis by simp
  next
    assume "d = 1"
    then show ?thesis by simp
  next
    assume "2 * d = 7"
    then show ?thesis by (rule quad_root)
  qed
  have only: "d = 0 \<or> d = 1 \<or> 2 * d = 7"
    if domain: "\<forall>a b::'a. a * b = 0 \<longrightarrow> a = 0 \<or> b = 0"
      and zero: "(9 * d - 2 * d\<^sup>2 - 7) * d = 0"
  proof -
    from zero have "((7 - 2 * d) * (d - 1)) * d = 0"
      by (simp only: quad_term_factors)
    with domain have "(7 - 2 * d) * (d - 1) = 0 \<or> d = 0" by blast
    with domain have "7 - 2 * d = 0 \<or> d - 1 = 0 \<or> d = 0" by blast
    then show ?thesis by auto
  qed
  have sixes: "(9 * d - 2 * d\<^sup>2 - 7) * d = 6" if "d = 2 \<or> d = 3"
    using that by (elim disjE) (simp_all only: quad_term_values)
  show ?thesis
    unfolding p v d_def [symmetric]
    using roots only sixes by auto
qed

theorem quad_extraction_roots_witness:
  "(14::fr) - 4 * 3 = 2
   \<and> prover_quad_extraction (14::fr) 3 = verifier_quad_extraction 14 3
   \<and> prover_quad_extraction (14::fr) 3 = 6 \<and> (6::fr) \<noteq> 0
   \<and> prover_quad_extraction (14::fr) 3 \<noteq> 0
   \<and> 2 * (half_seven - 4 * 0) = 7 \<and> prover_quad_extraction half_seven 0 = 0
   \<and> \<not> (\<exists>a b::int. a * b = 0 \<and> a \<noteq> 0 \<and> b \<noteq> 0)
   \<and> prover_quad_extraction (5::int) 1 = 0
   \<and> ((5::int) - 4 * 1 = 0 \<or> (5::int) - 4 * 1 = 1 \<or> 2 * ((5::int) - 4 * 1) = 7)"
proof -
  have two: "(14::fr) - 4 * 3 = 2" by simp
  have six: "(6::fr) \<noteq> 0" by simp
  have half: "2 * (half_seven - 4 * 0) = 7" by (simp add: half_seven_def)
  have domain: "\<forall>a b::int. a * b = 0 \<longrightarrow> a = 0 \<or> b = 0" by simp
  have one: "(5::int) - 4 * 1 = 1" by simp
  from quad_extraction_roots [of "14::fr" 3] two six
  have high: "prover_quad_extraction (14::fr) 3 = verifier_quad_extraction 14 3"
    "prover_quad_extraction (14::fr) 3 = 6" "prover_quad_extraction (14::fr) 3 \<noteq> 0"
    by blast+
  from quad_extraction_roots [of half_seven 0] half
  have root: "prover_quad_extraction half_seven 0 = 0" by blast
  from quad_extraction_roots [of "5::int" 1] one
  have int_root: "prover_quad_extraction (5::int) 1 = 0" by blast
  with quad_extraction_roots [of "5::int" 1] domain
  have int_only: "(5::int) - 4 * 1 = 0 \<or> (5::int) - 4 * 1 = 1 \<or> 2 * ((5::int) - 4 * 1) = 7"
    by blast
  from domain have "\<not> (\<exists>a b::int. a * b = 0 \<and> a \<noteq> 0 \<and> b \<noteq> 0)" by blast
  with two six high half root int_root int_only show ?thesis by blast
qed

text \<open>
  Over the whole field the term has a third root: at \<open>d = 7 / 2\<close>, which is neither \<open>0\<close> nor
  \<open>1\<close>, both paths compute \<open>0\<close>.
\<close>

theorem quad_extraction_root_counterexample:
  "prover_quad_extraction half_seven 0 = 0
   \<and> verifier_quad_extraction half_seven 0 = 0
   \<and> half_seven - 4 * 0 \<noteq> 0 \<and> half_seven - 4 * 0 \<noteq> 1"
proof -
  have two: "2 * half_seven = 7"
    by (simp add: half_seven_def)
  have d: "half_seven - 4 * 0 = half_seven"
    by simp
  have root: "(9 * half_seven - 2 * half_seven\<^sup>2 - 7) * half_seven = 0"
    by (rule quad_root [OF two])
  have distinct: "half_seven \<noteq> 0" "half_seven \<noteq> 1"
    by (simp_all add: half_seven_def)
  show ?thesis
    unfolding prover_quad_extraction_eq verifier_quad_extraction_eq d
    using root distinct by simp
qed

section \<open>The scalar multiplication inputs\<close>

lemma fold_push_selector_raised:
  "fold (\<lambda>(n, t). push_selector oc key n t) cands (ps, ss, Some e) = (ps, ss, Some e)"
  by (induction cands) auto

lemma fold_push_selector:
  "fold (\<lambda>(n, t). push_selector oc key n t) cands (ps, ss, None) =
     (ps @ map (\<lambda>(n, t). the (constraint_selectors key n)) (pushed_selectors oc key cands),
      ss @ map snd (pushed_selectors oc key cands),
      case dropWhile (\<lambda>(n, t). constraint_selectors key n \<noteq> None) cands of
        [] \<Rightarrow> None | (n, t) # rest \<Rightarrow> Some (out_of_range n))"
proof (induction cands arbitrary: ps ss)
  case Nil
  show ?case by (simp add: pushed_selectors_def)
next
  case (Cons c cands)
  obtain n t where c: "c = (n, t)" by (cases c)
  show ?case
  proof (cases "constraint_selectors key n")
    case None
    then show ?thesis
      by (simp add: c pushed_selectors_def fold_push_selector_raised)
  next
    case (Some pt)
    then show ?thesis
      using Cons.IH by (simp add: c pushed_selectors_def)
  qed
qed

lemma append_scalar_multiplication_inputs_fold:
  "append_scalar_multiplication_inputs oc key ch tr ps ss =
     (case fold (\<lambda>(n, t). push_selector oc key n t) (selector_scalars ch tr) (ps, ss, None) of
        (ps', ss', Some e) \<Rightarrow> (Inl e, ps', ss')
      | (ps', ss', None) \<Rightarrow> (Inr (next_challenge ch), ps', ss'))"
proof (cases ch)
  case (Challenge_coefficients ab as nb ns ln)
  have qm: "get_element tr ''w_1'' * get_element tr ''w_2'' * ab * get_element tr ''q_arith'' * ln
      = get_element tr ''w_1'' * get_element tr ''w_2'' * ab * ln * get_element tr ''q_arith''"
    by (simp add: mult_ac)
  show ?thesis
    unfolding Challenge_coefficients append_scalar_multiplication_inputs.simps
      selector_scalars.simps next_challenge.simps Let_def qm
    by simp
qed

lemma append_scalar_multiplication_inputs_eq:
  "append_scalar_multiplication_inputs oc key ch tr ps ss =
     ((case dropWhile (\<lambda>(n, t). constraint_selectors key n \<noteq> None) (selector_scalars ch tr) of
         [] \<Rightarrow> Inr (next_challenge ch) | (n, t) # rest \<Rightarrow> Inl (out_of_range n)),
      ps @ map (\<lambda>(n, t). the (constraint_selectors key n))
             (pushed_selectors oc key (selector_scalars ch tr)),
      ss @ map snd (pushed_selectors oc key (selector_scalars ch tr)))"
proof (cases "dropWhile (\<lambda>(n, t). constraint_selectors key n \<noteq> None) (selector_scalars ch tr)")
  case Nil
  show ?thesis
    unfolding append_scalar_multiplication_inputs_fold fold_push_selector Nil by simp
next
  case (Cons c rest)
  show ?thesis
    unfolding append_scalar_multiplication_inputs_fold fold_push_selector Cons
    by (cases c) simp
qed

lemma selector_scalars_names: "map fst (selector_scalars ch tr) = selector_names"
  by (cases ch) (simp add: selector_names_def Let_def)

lemma pushed_selectors_all_present:
  assumes "\<forall>name\<in>set (map fst cands). constraint_selectors key name \<noteq> None"
  shows "pushed_selectors oc key cands =
      filter (\<lambda>(name, scalar). oc (the (constraint_selectors key name))) cands"
    and "dropWhile (\<lambda>(name, scalar). constraint_selectors key name \<noteq> None) cands = []"
proof -
  have all: "\<forall>c\<in>set cands. (\<lambda>(name, scalar). constraint_selectors key name \<noteq> None) c"
    using assms by auto
  then have tw: "takeWhile (\<lambda>(name, scalar). constraint_selectors key name \<noteq> None) cands = cands"
    using takeWhile_eq_all_conv by blast
  show "pushed_selectors oc key cands =
      filter (\<lambda>(name, scalar). oc (the (constraint_selectors key name))) cands"
    unfolding pushed_selectors_def tw ..
  show "dropWhile (\<lambda>(name, scalar). constraint_selectors key name \<noteq> None) cands = []"
    using all dropWhile_eq_Nil_conv by blast
qed

lemma filter_commitments:
  "map (\<lambda>(name, scalar). the (constraint_selectors key name))
       (filter (\<lambda>(name, scalar). oc (the (constraint_selectors key name))) cands) =
   map fst (filter (\<lambda>(commitment, scalar). oc commitment)
       (map (\<lambda>(name, scalar). (the (constraint_selectors key name), scalar)) cands))"
  "map snd (filter (\<lambda>(name, scalar). oc (the (constraint_selectors key name))) cands) =
   map snd (filter (\<lambda>(commitment, scalar). oc commitment)
       (map (\<lambda>(name, scalar). (the (constraint_selectors key name), scalar)) cands))"
  by (induction cands) auto

lemma filter_on_curve_names:
  "map (\<lambda>(name, scalar). the (constraint_selectors key name))
       (filter (\<lambda>(name, scalar). oc (the (constraint_selectors key name))) cands) =
   filter oc (map (\<lambda>name. the (constraint_selectors key name)) (map fst cands))"
  by (induction cands) auto

lemma first_absent:
  assumes "\<exists>name\<in>set (map fst cands). constraint_selectors key name = None"
  shows "(case dropWhile (\<lambda>(n, t). constraint_selectors key n \<noteq> None) cands of
            [] \<Rightarrow> a | (n, t) # rest \<Rightarrow> b n) =
         b (hd (filter (\<lambda>name. constraint_selectors key name = None) (map fst cands)))"
  using assms
proof (induction cands)
  case Nil
  then show ?case by simp
next
  case (Cons c cands)
  obtain n t where c: "c = (n, t)" by (cases c)
  show ?case
  proof (cases "constraint_selectors key n")
    case None
    then show ?thesis by (simp add: c)
  next
    case (Some pt)
    with Cons.prems have "\<exists>name\<in>set (map fst cands). constraint_selectors key name = None"
      by (auto simp: c)
    from Cons.IH [OF this] Some show ?thesis by (simp add: c)
  qed
qed

lemma example_verification_key_present:
  "constraint_selectors example_verification_key ''Q_1'' = Some (1, 2)"
  "constraint_selectors example_verification_key ''Q_2'' = Some (0, 0)"
  "constraint_selectors example_verification_key ''Q_3'' = Some (1, 2)"
  "constraint_selectors example_verification_key ''Q_4'' = Some (1, - 2)"
  "constraint_selectors example_verification_key ''Q_5'' = Some (0, 0)"
  "constraint_selectors example_verification_key ''Q_M'' = Some (1, 2)"
  "constraint_selectors example_verification_key ''Q_C'' = Some (0, 0)"
  "constraint_selectors example_verification_key ''Q_ARITHMETIC_SELECTOR'' = Some (1, 2)"
  by (simp_all add: example_verification_key_def)

text \<open>
  C4 (as the code has it). With the eight commitments \<open>Q_1\<close>, \<open>Q_2\<close>, \<open>Q_3\<close>, \<open>Q_4\<close>, \<open>Q_5\<close>, \<open>Q_M\<close>, \<open>Q_C\<close>,
  \<open>Q_ARITHMETIC_SELECTOR\<close> in the key, the call pushes, for each of them that passes the
  on-curve check and for no other, exactly one pair of the commitment and its scalar:
  \<open>w_l(z) * alpha_base * linear_nu * q_arith(z)\<close> for \<open>Q_1\<close> and likewise for \<open>Q_2\<close>, \<open>Q_3\<close>,
  \<open>Q_4\<close>; the same with the factor \<open>(w_4\<^sup>2 - w_4) * (w_4 - 2)\<close> and the additional factor
  \<open>alpha_step\<close> for \<open>Q_5\<close>; \<open>w_l * w_r * alpha_base * linear_nu * q_arith\<close> for \<open>Q_M\<close>;
  \<open>alpha_base * linear_nu * q_arith\<close> for \<open>Q_C\<close>; \<open>nu_base\<close> for the arithmetic selector. It
  returns \<open>{alpha_base * alpha_step\<^sup>2, alpha_step, nu_base * nu_step, nu_step, linear_nu}\<close>.
\<close>

theorem scalar_multiplication_inputs_pairs:
  assumes "constraint_selectors key ''Q_1'' = Some Q1"
    and "constraint_selectors key ''Q_2'' = Some Q2"
    and "constraint_selectors key ''Q_3'' = Some Q3"
    and "constraint_selectors key ''Q_4'' = Some Q4"
    and "constraint_selectors key ''Q_5'' = Some Q5"
    and "constraint_selectors key ''Q_M'' = Some QM"
    and "constraint_selectors key ''Q_C'' = Some QC"
    and "constraint_selectors key ''Q_ARITHMETIC_SELECTOR'' = Some QA"
  shows "append_scalar_multiplication_inputs on_curve key
       (Challenge_coefficients alpha_base alpha_step nu_base nu_step linear_nu)
       transcript points scalars =
     (let w_l = get_element transcript ''w_1'';
          w_r = get_element transcript ''w_2'';
          w_o = get_element transcript ''w_3'';
          w_4 = get_element transcript ''w_4'';
          q_arith_z = get_element transcript ''q_arith'';
          pairs =
            [(Q1, w_l * alpha_base * linear_nu * q_arith_z),
             (Q2, w_r * alpha_base * linear_nu * q_arith_z),
             (Q3, w_o * alpha_base * linear_nu * q_arith_z),
             (Q4, w_4 * alpha_base * linear_nu * q_arith_z),
             (Q5, (w_4\<^sup>2 - w_4) * (w_4 - 2) * alpha_step * alpha_base * linear_nu * q_arith_z),
             (QM, w_l * w_r * alpha_base * linear_nu * q_arith_z),
             (QC, alpha_base * linear_nu * q_arith_z),
             (QA, nu_base)];
          pushed = filter (\<lambda>(commitment, scalar). on_curve commitment) pairs
      in (Inr (Challenge_coefficients (alpha_base * alpha_step\<^sup>2) alpha_step
                 (nu_base * nu_step) nu_step linear_nu),
          points @ map fst pushed, scalars @ map snd pushed))"
proof -
  let ?ch = "Challenge_coefficients alpha_base alpha_step nu_base nu_step linear_nu"
  have present: "\<forall>name\<in>set (map fst (selector_scalars ?ch transcript)).
      constraint_selectors key name \<noteq> None"
    unfolding selector_scalars_names by (simp add: selector_names_def assms)
  have pairs: "map (\<lambda>(name, scalar). (the (constraint_selectors key name), scalar))
        (selector_scalars ?ch transcript) =
      [(Q1, get_element transcript ''w_1'' * alpha_base * linear_nu
            * get_element transcript ''q_arith''),
       (Q2, get_element transcript ''w_2'' * alpha_base * linear_nu
            * get_element transcript ''q_arith''),
       (Q3, get_element transcript ''w_3'' * alpha_base * linear_nu
            * get_element transcript ''q_arith''),
       (Q4, get_element transcript ''w_4'' * alpha_base * linear_nu
            * get_element transcript ''q_arith''),
       (Q5, ((get_element transcript ''w_4'')\<^sup>2 - get_element transcript ''w_4'')
            * (get_element transcript ''w_4'' - 2) * alpha_step * alpha_base * linear_nu
            * get_element transcript ''q_arith''),
       (QM, get_element transcript ''w_1'' * get_element transcript ''w_2'' * alpha_base
            * linear_nu * get_element transcript ''q_arith''),
       (QC, alpha_base * linear_nu * get_element transcript ''q_arith''),
       (QA, nu_base)]"
    by (simp add: Let_def assms)
  show ?thesis
    unfolding append_scalar_multiplication_inputs_eq pushed_selectors_all_present [OF present]
      filter_commitments pairs Let_def
    by (simp only: list.case next_challenge.simps)
qed

theorem scalar_multiplication_inputs_pairs_witness:
  "constraint_selectors example_verification_key ''Q_1'' = Some (1, 2)
   \<and> constraint_selectors example_verification_key ''Q_2'' = Some (0, 0)
   \<and> constraint_selectors example_verification_key ''Q_3'' = Some (1, 2)
   \<and> constraint_selectors example_verification_key ''Q_4'' = Some (1, - 2)
   \<and> constraint_selectors example_verification_key ''Q_5'' = Some (0, 0)
   \<and> constraint_selectors example_verification_key ''Q_M'' = Some (1, 2)
   \<and> constraint_selectors example_verification_key ''Q_C'' = Some (0, 0)
   \<and> constraint_selectors example_verification_key ''Q_ARITHMETIC_SELECTOR'' = Some (1, 2)
   \<and> append_scalar_multiplication_inputs example_on_curve example_verification_key
        (Challenge_coefficients 1 2 3 5 7) example_evaluations [] [] =
      (Inr (Challenge_coefficients 4 2 15 5 7),
       [(1, 2), (1, 2), (1, - 2), (1, 2), (1, 2)], [14, 35, 21, 42, 3])"
  using scalar_multiplication_inputs_pairs
    [OF example_verification_key_present, of example_on_curve 1 2 3 5 7 example_evaluations "[]" "[]"]
    example_verification_key_present
  by (simp add: example_evaluations_def Let_def)

text \<open>
  Without the commitments in the key the statement fails: with \<open>Q_5\<close> absent the call pushes
  the pairs of \<open>Q_1\<close>, \<open>Q_3\<close> and \<open>Q_4\<close> and raises at the lookup of \<open>Q_5\<close>; \<open>Q_M\<close> and
  \<open>Q_ARITHMETIC_SELECTOR\<close> are in the key and on the curve, yet no pair is pushed for them,
  and no tuple is returned.
\<close>

theorem scalar_multiplication_inputs_pairs_counterexample:
  "constraint_selectors (example_verification_key\<lparr>constraint_selectors :=
        (constraint_selectors example_verification_key)(''Q_5'' := None)\<rparr>) ''Q_M'' = Some (1, 2)
   \<and> constraint_selectors (example_verification_key\<lparr>constraint_selectors :=
        (constraint_selectors example_verification_key)(''Q_5'' := None)\<rparr>)
        ''Q_ARITHMETIC_SELECTOR'' = Some (1, 2)
   \<and> example_on_curve (1, 2)
   \<and> append_scalar_multiplication_inputs example_on_curve
        (example_verification_key\<lparr>constraint_selectors :=
           (constraint_selectors example_verification_key)(''Q_5'' := None)\<rparr>)
        (Challenge_coefficients 1 2 3 5 7) example_evaluations [] [] =
      (Inl (out_of_range ''Q_5''), [(1, 2), (1, 2), (1, - 2)], [14, 35, 21])"
  by (simp add: append_scalar_multiplication_inputs.simps example_verification_key_def
      example_evaluations_def Let_def)

text \<open>
  The scalars of the seven selectors of the gate identity are the prover's linear
  coefficients times \<open>linear_nu\<close>: weighted with the selector polynomials at an index of the
  small domain they add up to \<open>linear_nu\<close> times what the linear contribution adds to \<open>r\<close>
  there, when \<open>alpha_step\<close> is the challenge \<open>alpha\<close>.
\<close>

lemma verifier_scalars_mirror_linear_contribution:
  assumes "i < num_threads (small_domain pkey) * thread_size (small_domain pkey)"
  shows "(let w_l = get_element transcript ''w_1'';
          w_r = get_element transcript ''w_2'';
          w_o = get_element transcript ''w_3'';
          w_4 = get_element transcript ''w_4'';
          q_arith_z = get_element transcript ''q_arith'';
          alpha_step = get_challenge transcript ''alpha''
      in (w_l * alpha_base * linear_nu * q_arith_z) * q_1 widget i
         + (w_r * alpha_base * linear_nu * q_arith_z) * q_2 widget i
         + (w_o * alpha_base * linear_nu * q_arith_z) * q_3 widget i
         + (w_4 * alpha_base * linear_nu * q_arith_z) * q_4 widget i
         + ((w_4\<^sup>2 - w_4) * (w_4 - 2) * alpha_step * alpha_base * linear_nu * q_arith_z)
             * q_5 widget i
         + (w_l * w_r * alpha_base * linear_nu * q_arith_z) * q_m widget i
         + (alpha_base * linear_nu * q_arith_z) * q_c widget i)
     = linear_nu * (snd (compute_linear_contribution widget pkey alpha_base transcript r) i - r i)"
  using assms
  by (simp add: compute_linear_contribution_eq Let_def algebra_simps)

text \<open>
  C8 (as the code has it). When all eight selector commitments are in the key, the call
  completes without an error and pushes the commitments that pass the on-curve check, in
  order, and nothing for one that fails it: the number of pairs pushed is the number of
  commitments on the curve. When a commitment is absent from the key, the lookup
  \<^verbatim>\<open>at\<close> of the first absent name throws \<^verbatim>\<open>std::out_of_range\<close> and the call does not
  complete.
\<close>

theorem scalar_multiplication_inputs_skip_or_raise:
  "((\<forall>name\<in>set selector_names. constraint_selectors key name \<noteq> None) \<longrightarrow>
      (case append_scalar_multiplication_inputs on_curve key challenge transcript points scalars of
         (result, points', scalars') \<Rightarrow>
           result = Inr (next_challenge challenge)
         \<and> points' = points @ filter on_curve
              (map (\<lambda>name. the (constraint_selectors key name)) selector_names)
         \<and> length scalars' = length scalars + length (filter on_curve
              (map (\<lambda>name. the (constraint_selectors key name)) selector_names))))
   \<and> ((\<exists>name\<in>set selector_names. constraint_selectors key name = None) \<longrightarrow>
        fst (append_scalar_multiplication_inputs on_curve key challenge transcript points scalars) =
          Inl (out_of_range
            (hd (filter (\<lambda>name. constraint_selectors key name = None) selector_names))))"
proof (intro conjI impI)
  assume "\<forall>name\<in>set selector_names. constraint_selectors key name \<noteq> None"
  then have present: "\<forall>name\<in>set (map fst (selector_scalars challenge transcript)).
      constraint_selectors key name \<noteq> None"
    unfolding selector_scalars_names .
  have len: "length (map snd (filter (\<lambda>(name, scalar). on_curve (the (constraint_selectors key name)))
        (selector_scalars challenge transcript))) =
      length (map (\<lambda>(name, scalar). the (constraint_selectors key name))
        (filter (\<lambda>(name, scalar). on_curve (the (constraint_selectors key name)))
        (selector_scalars challenge transcript)))"
    by simp
  show "case append_scalar_multiplication_inputs on_curve key challenge transcript points scalars of
         (result, points', scalars') \<Rightarrow>
           result = Inr (next_challenge challenge)
         \<and> points' = points @ filter on_curve
              (map (\<lambda>name. the (constraint_selectors key name)) selector_names)
         \<and> length scalars' = length scalars + length (filter on_curve
              (map (\<lambda>name. the (constraint_selectors key name)) selector_names))"
    unfolding append_scalar_multiplication_inputs_eq pushed_selectors_all_present [OF present]
    using len unfolding filter_on_curve_names selector_scalars_names
    by simp
next
  assume "\<exists>name\<in>set selector_names. constraint_selectors key name = None"
  then have absent: "\<exists>name\<in>set (map fst (selector_scalars challenge transcript)).
      constraint_selectors key name = None"
    unfolding selector_scalars_names .
  show "fst (append_scalar_multiplication_inputs on_curve key challenge transcript points scalars) =
          Inl (out_of_range
            (hd (filter (\<lambda>name. constraint_selectors key name = None) selector_names)))"
    unfolding append_scalar_multiplication_inputs_eq fst_conv first_absent [OF absent]
      selector_scalars_names ..
qed

theorem scalar_multiplication_inputs_skip_or_raise_witness:
  "list_all (\<lambda>name. constraint_selectors example_verification_key name \<noteq> None) selector_names
   \<and> fst (append_scalar_multiplication_inputs example_on_curve example_verification_key
        (Challenge_coefficients 1 2 3 5 7) example_evaluations [] []) =
        Inr (Challenge_coefficients 4 2 15 5 7)
   \<and> fst (snd (append_scalar_multiplication_inputs example_on_curve example_verification_key
        (Challenge_coefficients 1 2 3 5 7) example_evaluations [] [])) =
        [(1, 2), (1, 2), (1, - 2), (1, 2), (1, 2)]
   \<and> (\<exists>name\<in>set selector_names.
        constraint_selectors (example_verification_key\<lparr>constraint_selectors :=
          (constraint_selectors example_verification_key)(''Q_3'' := None)\<rparr>) name = None)
   \<and> fst (append_scalar_multiplication_inputs example_on_curve
        (example_verification_key\<lparr>constraint_selectors :=
          (constraint_selectors example_verification_key)(''Q_3'' := None)\<rparr>)
        (Challenge_coefficients 1 2 3 5 7) example_evaluations [] []) = Inl (out_of_range ''Q_3'')"
proof -
  let ?key = "example_verification_key\<lparr>constraint_selectors :=
          (constraint_selectors example_verification_key)(''Q_3'' := None)\<rparr>"
  let ?call = "append_scalar_multiplication_inputs example_on_curve example_verification_key
        (Challenge_coefficients 1 2 3 5 7) example_evaluations [] []"
  have p: "\<forall>name\<in>set selector_names. constraint_selectors example_verification_key name \<noteq> None"
    by (simp add: selector_names_def example_verification_key_def)
  have a: "\<exists>name\<in>set selector_names. constraint_selectors ?key name = None"
    by (simp add: selector_names_def)
  have h: "hd (filter (\<lambda>name. constraint_selectors ?key name = None) selector_names) = ''Q_3''"
    by (simp add: selector_names_def example_verification_key_def)
  have f: "filter example_on_curve
        (map (\<lambda>name. the (constraint_selectors example_verification_key name)) selector_names)
      = [(1, 2), (1, 2), (1, - 2), (1, 2), (1, 2)]"
    by (simp add: selector_names_def example_verification_key_def)
  obtain result points' scalars' where r: "?call = (result, points', scalars')"
    by (cases ?call)
  from scalar_multiplication_inputs_skip_or_raise
    [where key = example_verification_key and on_curve = example_on_curve
      and challenge = "Challenge_coefficients 1 2 3 5 7" and transcript = example_evaluations
      and points = "[]" and scalars = "[]"] p
  have "result = Inr (next_challenge (Challenge_coefficients 1 2 3 5 7))"
    and "points' = [] @ filter example_on_curve
       (map (\<lambda>name. the (constraint_selectors example_verification_key name)) selector_names)"
    unfolding r by simp_all
  then have present: "fst ?call = Inr (Challenge_coefficients 4 2 15 5 7)"
      "fst (snd ?call) = [(1, 2), (1, 2), (1, - 2), (1, 2), (1, 2)]"
    unfolding r f by simp_all
  from scalar_multiplication_inputs_skip_or_raise
    [where key = ?key and on_curve = example_on_curve
      and challenge = "Challenge_coefficients 1 2 3 5 7" and transcript = example_evaluations
      and points = "[]" and scalars = "[]"] a
  have absent: "fst (append_scalar_multiplication_inputs example_on_curve ?key
        (Challenge_coefficients 1 2 3 5 7) example_evaluations [] []) = Inl (out_of_range ''Q_3'')"
    unfolding h by blast
  from p have "list_all (\<lambda>name. constraint_selectors example_verification_key name \<noteq> None)
      selector_names"
    by (simp only: list_all_iff)
  with present a absent show ?thesis by blast
qed

text \<open>
  With \<open>Q_3\<close> absent from the key the call does not skip it: it pushes the pair of \<open>Q_1\<close>,
  skips \<open>Q_2\<close> (off the curve) and raises at the lookup of \<open>Q_3\<close>.
\<close>

theorem scalar_multiplication_inputs_absent_counterexample:
  "append_scalar_multiplication_inputs example_on_curve
     (example_verification_key\<lparr>constraint_selectors :=
        (constraint_selectors example_verification_key)(''Q_3'' := None)\<rparr>)
     (Challenge_coefficients 1 2 3 5 7) example_evaluations [] [] =
   (Inl (out_of_range ''Q_3''), [(1, 2)], [14])"
  by (simp add: append_scalar_multiplication_inputs.simps example_verification_key_def
      example_evaluations_def Let_def)

text \<open>
  C10. Every call, whether it returns or raises, leaves the two vectors as they were
  followed by new entries: the commitments and the scalars of the same pushed selectors,
  position by position, so both grow by the same number of elements; the pushed selectors
  keep the order \<open>Q_1\<close>, \<open>Q_2\<close>, \<open>Q_3\<close>, \<open>Q_4\<close>, \<open>Q_5\<close>, \<open>Q_M\<close>, \<open>Q_C\<close>, \<open>Q_ARITHMETIC_SELECTOR\<close>;
  no entry that was there before is changed or removed.
\<close>

theorem scalar_multiplication_inputs_extend:
  "case append_scalar_multiplication_inputs on_curve key challenge transcript points scalars of
     (result, points', scalars') \<Rightarrow>
       points' = points @ map (\<lambda>(name, scalar). the (constraint_selectors key name))
                   (pushed_selectors on_curve key (selector_scalars challenge transcript))
     \<and> scalars' = scalars
         @ map snd (pushed_selectors on_curve key (selector_scalars challenge transcript))
     \<and> subseq (map fst (pushed_selectors on_curve key (selector_scalars challenge transcript)))
         selector_names
     \<and> length points' - length points = length scalars' - length scalars
     \<and> take (length points) points' = points
     \<and> take (length scalars) scalars' = scalars"
proof -
  have "subseq (pushed_selectors on_curve key (selector_scalars challenge transcript))
      (selector_scalars challenge transcript)"
    unfolding pushed_selectors_def
    by (meson subseq_filter_left subseq_order.order_trans prefix_imp_subseq takeWhile_is_prefix)
  then have "subseq (map fst (pushed_selectors on_curve key (selector_scalars challenge transcript)))
      (map fst (selector_scalars challenge transcript))"
    by (rule subseq_map)
  then show ?thesis
    unfolding append_scalar_multiplication_inputs_eq selector_scalars_names by simp
qed

end
